theory Spec2Isabelle
  imports Main "HOL-Library.Sublist"
begin

section \<open>The Snowflake client wrapper (src/snowflake\_client/client.py)\<close>

text \<open>
  The client wraps an external database driver. The driver is not part of the
  repository, so it is a parameter of the model: a record of functions, one per
  driver entry point the client calls, each of which sees the history of driver
  calls made so far and answers with a value or with an exception. Every call the
  client makes on the driver is appended to a trace, whether the call returns or
  raises. Logging and the two \<^verbatim>\<open>print\<close> calls of \<^verbatim>\<open>execute_query\<close> are
  not driver calls and are left out of the trace.
\<close>

subsection \<open>Values, exceptions, driver calls\<close>

datatype pyval = PNone | PStr string | PInt int

type_synonym kwargs = "(string \<times> string) list"
type_synonym params = "(string \<times> pyval) list"
type_synonym row = "(string \<times> pyval) list"
type_synonym handle = nat
type_synonym cursor = nat

text \<open>
  \<open>PyException\<close> is an \<^verbatim>\<open>Exception(msg)\<close> raised by the client itself,
  \<open>DriverException\<close> anything raised inside the driver.
\<close>

datatype exn = PyException string | DriverException string

datatype event =
    DrvConnect kwargs
  | DrvCursor handle
  | DrvExecute cursor string "params option"
  | DrvFetchall cursor
  | DrvCursorClose cursor
  | DrvClose handle

record driver =
  drv_connect :: "event list \<Rightarrow> kwargs \<Rightarrow> exn + handle"
  drv_cursor :: "event list \<Rightarrow> handle \<Rightarrow> exn + cursor"
  drv_execute :: "event list \<Rightarrow> cursor \<Rightarrow> string \<Rightarrow> params option \<Rightarrow> exn option"
  drv_fetchall :: "event list \<Rightarrow> cursor \<Rightarrow> exn + row list"
  drv_cursor_close :: "event list \<Rightarrow> cursor \<Rightarrow> exn option"
  drv_close :: "event list \<Rightarrow> handle \<Rightarrow> exn option"

subsection \<open>The client object\<close>

text \<open>
  \<^verbatim>\<open>self.connection_params\<close> is a dict built in a fixed insertion order and
  \<^verbatim>\<open>self.connection\<close> is \<^verbatim>\<open>None\<close> or the handle the driver returned. A
  driver handle is an ordinary object, hence truthy: \<^verbatim>\<open>if self.connection\<close>
  is the test \<open>connection c \<noteq> None\<close>.
\<close>

record SnowflakeClient =
  connection_params :: kwargs
  connection :: "handle option"

type_synonym state = "SnowflakeClient \<times> event list"

text \<open>Python truthiness of an optional string and of an optional dict.\<close>

definition truthy_str :: "string option \<Rightarrow> bool" where
  "truthy_str x = (case x of None \<Rightarrow> False | Some v \<Rightarrow> v \<noteq> [])"

definition truthy_dict :: "('k \<times> 'v) list option \<Rightarrow> bool" where
  "truthy_dict x = (case x of None \<Rightarrow> False | Some kvs \<Rightarrow> kvs \<noteq> [])"

text \<open>\<^verbatim>\<open>init.get(key, None)\<close> on the optional dict of \<^verbatim>\<open>execute_query\<close>.\<close>

definition dict_get :: "(string \<times> string) list option \<Rightarrow> string \<Rightarrow> string option" where
  "dict_get x k = (case x of None \<Rightarrow> None | Some kvs \<Rightarrow> map_of kvs k)"

text \<open>\<^verbatim>\<open>if value: self.connection_params[key] = value\<close> (client.py, lines 41-48).\<close>

definition put_if_truthy :: "string \<Rightarrow> string option \<Rightarrow> kwargs \<Rightarrow> kwargs" where
  "put_if_truthy k x ps = (if truthy_str x then ps @ [(k, the x)] else ps)"

definition SnowflakeClient_init ::
  "string \<Rightarrow> string \<Rightarrow> string \<Rightarrow> string option \<Rightarrow> string option \<Rightarrow> string option \<Rightarrow>
   string option \<Rightarrow> SnowflakeClient" where
  "SnowflakeClient_init account user password warehouse database schema role =
     \<lparr>connection_params =
        put_if_truthy ''role'' role
          (put_if_truthy ''schema'' schema
            (put_if_truthy ''database'' database
              (put_if_truthy ''warehouse'' warehouse
                [(''account'', account), (''user'', user), (''password'', password)]))),
      connection = None\<rparr>"

text \<open>
  \<^verbatim>\<open>connect\<close> (lines 52-59): the assignment to \<^verbatim>\<open>self.connection\<close> happens only
  when the driver returns; the handler logs and re-raises.
\<close>

definition connect :: "driver \<Rightarrow> state \<Rightarrow> (exn + unit) \<times> state" where
  "connect d s =
     (case s of (c, t) \<Rightarrow>
        (case drv_connect d t (connection_params c) of
           Inr h \<Rightarrow> (Inr (), c\<lparr>connection := Some h\<rparr>, t @ [DrvConnect (connection_params c)])
         | Inl e \<Rightarrow> (Inl e, c, t @ [DrvConnect (connection_params c)])))"

text \<open>\<^verbatim>\<open>disconnect\<close> (lines 61-66): the reference is cleared after \<^verbatim>\<open>close()\<close> returned.\<close>

definition disconnect :: "driver \<Rightarrow> state \<Rightarrow> (exn + unit) \<times> state" where
  "disconnect d s =
     (case s of (c, t) \<Rightarrow>
        (case connection c of
           None \<Rightarrow> (Inr (), c, t)
         | Some h \<Rightarrow>
             (case drv_close d t h of
                Some e \<Rightarrow> (Inl e, c, t @ [DrvClose h])
              | None \<Rightarrow> (Inr (), c\<lparr>connection := None\<rparr>, t @ [DrvClose h]))))"

text \<open>
  The \<^verbatim>\<open>try\<close> block of \<^verbatim>\<open>execute_query\<close> (lines 93-114). Its handler logs and
  re-raises, so every exception leaves the block where it arose. A falsy
  \<^verbatim>\<open>params\<close> (\<^verbatim>\<open>None\<close> or the empty dict) gives the one-argument call
  \<^verbatim>\<open>cursor.execute(query)\<close>.
\<close>

definition execute_query_try :: "driver \<Rightarrow> string \<Rightarrow> params option \<Rightarrow> state \<Rightarrow> (exn + row list) \<times> state" where
  "execute_query_try d query ps s =
     (case s of (c, t) \<Rightarrow>
        (case connection c of
           None \<Rightarrow> (Inl (PyException ''No connection to Snowflake''), c, t)
         | Some h \<Rightarrow>
             (let t1 = t @ [DrvCursor h] in
              case drv_cursor d t h of
                Inl e \<Rightarrow> (Inl e, c, t1)
              | Inr cur \<Rightarrow>
                  (let arg = (if truthy_dict ps then ps else None);
                       t2 = t1 @ [DrvExecute cur query arg] in
                   case drv_execute d t1 cur query arg of
                     Some e \<Rightarrow> (Inl e, c, t2)
                   | None \<Rightarrow>
                       (let t3 = t2 @ [DrvFetchall cur] in
                        case drv_fetchall d t2 cur of
                          Inl e \<Rightarrow> (Inl e, c, t3)
                        | Inr results \<Rightarrow>
                            (let t4 = t3 @ [DrvCursorClose cur] in
                             case drv_cursor_close d t3 cur of
                               Some e \<Rightarrow> (Inl e, c, t4)
                             | None \<Rightarrow> (Inr results, c, t4)))))))"

text \<open>
  \<^verbatim>\<open>execute_query\<close> (lines 68-114) and \<^verbatim>\<open>initialize_context\<close> (lines 116-141)
  call each other. The calls made by \<^verbatim>\<open>initialize_context\<close> pass neither
  \<^verbatim>\<open>params\<close> nor \<^verbatim>\<open>init\<close>, which bounds the recursion.
\<close>

function execute_query ::
    "driver \<Rightarrow> string \<Rightarrow> params option \<Rightarrow> (string \<times> string) list option \<Rightarrow> state \<Rightarrow>
     (exn + row list) \<times> state"
  and initialize_context ::
    "driver \<Rightarrow> string option \<Rightarrow> string option \<Rightarrow> state \<Rightarrow> (exn + unit) \<times> state"
where
  "execute_query d query ps init s =
     (case (if connection (fst s) = None then connect d s else (Inr (), s)) of
        (Inl e, s1) \<Rightarrow> (Inl e, s1)
      | (Inr _, s1) \<Rightarrow>
          (case (if truthy_dict init
                 then initialize_context d (dict_get init ''database'') (dict_get init ''schema'') s1
                 else (Inr (), s1)) of
             (Inl e, s2) \<Rightarrow> (Inl e, s2)
           | (Inr _, s2) \<Rightarrow> execute_query_try d query ps s2))"
| "initialize_context d database schema s =
     (case (if truthy_str database
            then execute_query d (''USE DATABASE '' @ the database) None None s
            else (Inr [], s)) of
        (Inl e, s1) \<Rightarrow> (Inl e, s1)
      | (Inr _, s1) \<Rightarrow>
          (case (if truthy_str schema
                 then execute_query d (''USE SCHEMA '' @ the schema) None None s1
                 else (Inr [], s1)) of
             (Inl e, s2) \<Rightarrow> (Inl e, s2)
           | (Inr _, s2) \<Rightarrow> (Inr (), s2)))"
  by pat_completeness auto
termination
  by (relation "measure (\<lambda>x. case x of
          Inl (d, query, ps, init, s) \<Rightarrow> (if truthy_dict init then 2 else 0)
        | Inr (d, database, schema, s) \<Rightarrow> 1)")
     (auto simp: truthy_dict_def)

declare execute_query.simps [simp del] initialize_context.simps [simp del]

text \<open>
  \<^verbatim>\<open>__enter__\<close> and \<^verbatim>\<open>__exit__\<close> (lines 143-150). \<^verbatim>\<open>__exit__\<close> ignores
  the exception it is handed and returns \<^verbatim>\<open>None\<close>, so it never suppresses the
  exception of the body.
\<close>

definition client_enter :: "driver \<Rightarrow> state \<Rightarrow> (exn + unit) \<times> state" where
  "client_enter d s = connect d s"

definition client_exit :: "driver \<Rightarrow> exn option \<Rightarrow> state \<Rightarrow> (exn + unit) \<times> state" where
  "client_exit d exc s = disconnect d s"

text \<open>
  The statement \<^verbatim>\<open>with client: body\<close>, as Python runs it: when \<^verbatim>\<open>__enter__\<close>
  raises, neither the body nor \<^verbatim>\<open>__exit__\<close> runs; otherwise \<^verbatim>\<open>__exit__\<close> is
  called with the body's exception, or with none; an exception of \<^verbatim>\<open>__exit__\<close>
  replaces the one of the body, and a falsy return value lets the body's
  exception continue.
\<close>

definition with_client :: "driver \<Rightarrow> (state \<Rightarrow> (exn + 'a) \<times> state) \<Rightarrow> state \<Rightarrow> (exn + 'a) \<times> state" where
  "with_client d body s =
     (case client_enter d s of
        (Inl e, s1) \<Rightarrow> (Inl e, s1)
      | (Inr _, s1) \<Rightarrow>
          (case body s1 of
             (Inr v, s2) \<Rightarrow>
               (case client_exit d None s2 of
                  (Inl e', s3) \<Rightarrow> (Inl e', s3)
                | (Inr _, s3) \<Rightarrow> (Inr v, s3))
           | (Inl e, s2) \<Rightarrow>
               (case client_exit d (Some e) s2 of
                  (Inl e', s3) \<Rightarrow> (Inl e', s3)
                | (Inr _, s3) \<Rightarrow> (Inl e, s3))))"

text \<open>
  \<^verbatim>\<open>create_snowflake_client_from_env\<close> (lines 153-185). The environment is a
  map from variable names to values; \<^verbatim>\<open>os.getenv\<close> is the lookup.
\<close>

definition create_snowflake_client_from_env :: "(string \<Rightarrow> string option) \<Rightarrow> exn + SnowflakeClient" where
  "create_snowflake_client_from_env env =
     (let account = env ''SNOWFLAKE_ACCOUNT'';
          user = env ''SNOWFLAKE_USER'';
          password = env ''SNOWFLAKE_PASSWORD'';
          warehouse = env ''SNOWFLAKE_WAREHOUSE'';
          role = env ''SNOWFLAKE_ROLE''
      in if \<not> truthy_str account then Inl (PyException ''SNOWFLAKE_ACCOUNT is not set'')
         else if \<not> truthy_str user then Inl (PyException ''SNOWFLAKE_USER is not set'')
         else if \<not> truthy_str password then Inl (PyException ''SNOWFLAKE_PASSWORD is not set'')
         else Inr (SnowflakeClient_init (the account) (the user) (the password)
                     warehouse None None role))"

subsection \<open>Reading the trace\<close>

fun statements :: "event list \<Rightarrow> string list" where
  "statements [] = []"
| "statements (DrvExecute cur q a # evs) = q # statements evs"
| "statements (ev # evs) = statements evs"

fun connects :: "event list \<Rightarrow> nat" where
  "connects [] = 0"
| "connects (DrvConnect kw # evs) = Suc (connects evs)"
| "connects (ev # evs) = connects evs"

text \<open>
  The statements \<^verbatim>\<open>initialize_context(database, schema)\<close> is to run, and the
  statements a whole \<^verbatim>\<open>execute_query(query, params, init)\<close> is to run.
\<close>

definition use_statements :: "string option \<Rightarrow> string option \<Rightarrow> string list" where
  "use_statements database schema =
     (if truthy_str database then [''USE DATABASE '' @ the database] else []) @
     (if truthy_str schema then [''USE SCHEMA '' @ the schema] else [])"

definition planned_statements :: "string \<Rightarrow> (string \<times> string) list option \<Rightarrow> string list" where
  "planned_statements query init =
     (if truthy_dict init
      then use_statements (dict_get init ''database'') (dict_get init ''schema'')
      else []) @ [query]"

subsection \<open>Test drivers\<close>

text \<open>A driver on which every call returns; each query yields the same two rows.\<close>

definition ok_driver :: driver where
  "ok_driver =
     \<lparr>drv_connect = (\<lambda>t kw. Inr 1),
      drv_cursor = (\<lambda>t h. Inr (length t)),
      drv_execute = (\<lambda>t cur q a. None),
      drv_fetchall = (\<lambda>t cur. Inr [[(''A'', PInt 1)], [(''A'', PInt 2)]]),
      drv_cursor_close = (\<lambda>t cur. None),
      drv_close = (\<lambda>t h. None)\<rparr>"

text \<open>A driver that accepts the first connection and refuses every later one.\<close>

definition flaky_driver :: driver where
  "flaky_driver =
     ok_driver\<lparr>drv_connect :=
       (\<lambda>t kw. if connects t = 0 then Inr 1 else Inl (DriverException ''connection refused''))\<rparr>"

text \<open>A driver whose \<^verbatim>\<open>handle.close()\<close> raises.\<close>

definition stuck_driver :: driver where
  "stuck_driver = ok_driver\<lparr>drv_close := (\<lambda>t h. Some (DriverException ''close failed''))\<rparr>"

text \<open>A driver whose \<^verbatim>\<open>cursor.execute\<close> raises.\<close>

definition bad_sql_driver :: driver where
  "bad_sql_driver = ok_driver\<lparr>drv_execute := (\<lambda>t cur q a. Some (DriverException ''SQL compilation error''))\<rparr>"

definition acme :: SnowflakeClient where
  "acme = SnowflakeClient_init ''acme'' ''alice'' ''pw'' None None None None"

text \<open>A body of a \<^verbatim>\<open>with\<close> block that raises at once.\<close>

definition failing_body :: "state \<Rightarrow> (exn + unit) \<times> state" where
  "failing_body s = (Inl (PyException ''boom''), s)"

definition sample_env :: "string \<Rightarrow> string option" where
  "sample_env =
     [''SNOWFLAKE_ACCOUNT'' \<mapsto> ''acme'', ''SNOWFLAKE_USER'' \<mapsto> ''alice'',
      ''SNOWFLAKE_PASSWORD'' \<mapsto> ''pw'', ''SNOWFLAKE_DATABASE'' \<mapsto> ''SALES'',
      ''SNOWFLAKE_SCHEMA'' \<mapsto> ''PUBLIC'']"

section \<open>Properties\<close>

subsection \<open>The constructor\<close>

lemma put_if_truthy_absent [simp]: "put_if_truthy k None ps = ps"
  by (simp add: put_if_truthy_def truthy_str_def)

lemma put_if_truthy_empty [simp]: "put_if_truthy k (Some []) ps = ps"
  by (simp add: put_if_truthy_def truthy_str_def)

lemma put_if_truthy_given: "v \<noteq> [] \<Longrightarrow> put_if_truthy k (Some v) ps = ps @ [(k, v)]"
  by (simp add: put_if_truthy_def truthy_str_def)

lemma map_of_put_if_truthy:
  "map_of (put_if_truthy k x ps) k' =
     (case map_of ps k' of
        Some v \<Rightarrow> Some v
      | None \<Rightarrow> if k' = k \<and> truthy_str x then x else None)"
  by (cases x) (auto simp: put_if_truthy_def truthy_str_def map_add_def split: option.splits)

lemma set_put_if_truthy:
  "set (put_if_truthy k x ps) = (if truthy_str x then insert (k, the x) (set ps) else set ps)"
  by (simp add: put_if_truthy_def)

lemma keys_put_if_truthy:
  "fst ` set (put_if_truthy k x ps) =
     (if truthy_str x then insert k (fst ` set ps) else fst ` set ps)"
  by (simp add: put_if_truthy_def)

lemma acme_params: "connection_params acme = [(''account'', ''acme''), (''user'', ''alice''), (''password'', ''pw'')]"
  by (simp add: acme_def SnowflakeClient_init_def)

lemma acme_connection: "connection acme = None"
  by (simp add: acme_def SnowflakeClient_init_def)

text \<open>
  C8. An optional constructor argument that is absent is left out of the stored
  parameters altogether, an optional argument that is supplied (a non-empty
  string) is stored under its key next to account, user and password, no
  stored optional key carries the empty string, and the stored parameters are
  what connect hands to the driver.
\<close>

theorem absent_optional_fields_are_omitted:
  fixes account user password :: string and warehouse database schema role :: "string option"
  defines "c \<equiv> SnowflakeClient_init account user password warehouse database schema role"
  defines "kw \<equiv> connection_params c"
  shows "map_of kw ''account'' = Some account \<and> map_of kw ''user'' = Some user \<and>
         map_of kw ''password'' = Some password \<and>
         (warehouse = None \<longrightarrow> ''warehouse'' \<notin> fst ` set kw) \<and>
         (database = None \<longrightarrow> ''database'' \<notin> fst ` set kw) \<and>
         (schema = None \<longrightarrow> ''schema'' \<notin> fst ` set kw) \<and>
         (role = None \<longrightarrow> ''role'' \<notin> fst ` set kw) \<and>
         (\<forall>v. v \<noteq> [] \<and> warehouse = Some v \<longrightarrow> map_of kw ''warehouse'' = Some v) \<and>
         (\<forall>v. v \<noteq> [] \<and> database = Some v \<longrightarrow> map_of kw ''database'' = Some v) \<and>
         (\<forall>v. v \<noteq> [] \<and> schema = Some v \<longrightarrow> map_of kw ''schema'' = Some v) \<and>
         (\<forall>v. v \<noteq> [] \<and> role = Some v \<longrightarrow> map_of kw ''role'' = Some v) \<and>
         (\<forall>k. k \<notin> {''account'', ''user'', ''password''} \<longrightarrow> (k, []) \<notin> set kw) \<and>
         connection c = None \<and>
         snd (snd (connect d (c, t))) = t @ [DrvConnect kw]"
proof -
  note defs = c_def kw_def SnowflakeClient_init_def
  have req: "map_of kw ''account'' = Some account" "map_of kw ''user'' = Some user"
    "map_of kw ''password'' = Some password"
    by (simp_all add: defs map_of_put_if_truthy)
  have absent: "warehouse = None \<longrightarrow> ''warehouse'' \<notin> fst ` set kw"
    "database = None \<longrightarrow> ''database'' \<notin> fst ` set kw"
    "schema = None \<longrightarrow> ''schema'' \<notin> fst ` set kw"
    "role = None \<longrightarrow> ''role'' \<notin> fst ` set kw"
    by (simp_all add: defs keys_put_if_truthy truthy_str_def)
  have given: "\<forall>v. v \<noteq> [] \<and> warehouse = Some v \<longrightarrow> map_of kw ''warehouse'' = Some v"
    "\<forall>v. v \<noteq> [] \<and> database = Some v \<longrightarrow> map_of kw ''database'' = Some v"
    "\<forall>v. v \<noteq> [] \<and> schema = Some v \<longrightarrow> map_of kw ''schema'' = Some v"
    "\<forall>v. v \<noteq> [] \<and> role = Some v \<longrightarrow> map_of kw ''role'' = Some v"
    by (simp_all add: defs map_of_put_if_truthy truthy_str_def)
  have nonempty: "\<forall>k. k \<notin> {''account'', ''user'', ''password''} \<longrightarrow> (k, []) \<notin> set kw"
    by (simp add: defs set_put_if_truthy truthy_str_def split: option.splits)
  have unconnected: "connection c = None"
    by (simp add: defs)
  have conn: "snd (snd (connect d (c, t))) = t @ [DrvConnect kw]"
    by (simp add: connect_def kw_def split: sum.splits)
  from req absent given nonempty unconnected conn show ?thesis
    by blast
qed

theorem absent_optional_fields_are_omitted_witness:
  "map_of (connection_params (SnowflakeClient_init ''acme'' ''alice'' ''pw'' (Some ''WH'') None None None))
     ''warehouse'' = Some ''WH'' \<and>
   ''database'' \<notin> fst ` set (connection_params
      (SnowflakeClient_init ''acme'' ''alice'' ''pw'' (Some ''WH'') None None None)) \<and>
   snd (snd (connect ok_driver
      (SnowflakeClient_init ''acme'' ''alice'' ''pw'' (Some ''WH'') None None None, []))) =
     [DrvConnect [(''account'', ''acme''), (''user'', ''alice''), (''password'', ''pw''),
                  (''warehouse'', ''WH'')]]"
  using absent_optional_fields_are_omitted
    [of "''acme''" "''alice''" "''pw''" "Some ''WH''" None None None ok_driver "[]"]
  by (simp add: SnowflakeClient_init_def put_if_truthy_def truthy_str_def)

text \<open>
  C9. An optional constructor argument given as the empty string is treated
  exactly as an absent one, for each of the four optional fields and whatever
  the other arguments are, so no optional key is ever stored with the empty
  string as its value.
\<close>

theorem empty_optional_fields_are_omitted:
  "SnowflakeClient_init a u p (Some []) db sc r = SnowflakeClient_init a u p None db sc r \<and>
   SnowflakeClient_init a u p w (Some []) sc r = SnowflakeClient_init a u p w None sc r \<and>
   SnowflakeClient_init a u p w db (Some []) r = SnowflakeClient_init a u p w db None r \<and>
   SnowflakeClient_init a u p w db sc (Some []) = SnowflakeClient_init a u p w db sc None \<and>
   (\<forall>k. k \<notin> {''account'', ''user'', ''password''} \<longrightarrow>
        (k, []) \<notin> set (connection_params (SnowflakeClient_init a u p w db sc r)))"
proof -
  have same: "SnowflakeClient_init a u p (Some []) db sc r = SnowflakeClient_init a u p None db sc r"
    "SnowflakeClient_init a u p w (Some []) sc r = SnowflakeClient_init a u p w None sc r"
    "SnowflakeClient_init a u p w db (Some []) r = SnowflakeClient_init a u p w db None r"
    "SnowflakeClient_init a u p w db sc (Some []) = SnowflakeClient_init a u p w db sc None"
    by (simp_all add: SnowflakeClient_init_def)
  have nonempty: "\<forall>k. k \<notin> {''account'', ''user'', ''password''} \<longrightarrow>
        (k, []) \<notin> set (connection_params (SnowflakeClient_init a u p w db sc r))"
    by (simp add: SnowflakeClient_init_def set_put_if_truthy truthy_str_def split: option.splits)
  from same nonempty show ?thesis
    by blast
qed

theorem empty_optional_fields_are_omitted_witness:
  "connection_params (SnowflakeClient_init ''acme'' ''alice'' ''pw'' (Some []) (Some ''DB'') (Some []) None) =
     [(''account'', ''acme''), (''user'', ''alice''), (''password'', ''pw''), (''database'', ''DB'')] \<and>
   SnowflakeClient_init ''acme'' ''alice'' ''pw'' (Some []) (Some ''DB'') (Some []) None =
     SnowflakeClient_init ''acme'' ''alice'' ''pw'' None (Some ''DB'') (Some []) None"
  using empty_optional_fields_are_omitted
    [of "''acme''" "''alice''" "''pw''" "Some ''DB''" "Some []" None]
  by (simp add: SnowflakeClient_init_def put_if_truthy_def truthy_str_def)

subsection \<open>Connecting and disconnecting\<close>

lemma connect_cases:
  "(\<exists>h. drv_connect d t (connection_params c) = Inr h \<and>
        connect d (c, t) = (Inr (), c\<lparr>connection := Some h\<rparr>, t @ [DrvConnect (connection_params c)])) \<or>
   (\<exists>e. drv_connect d t (connection_params c) = Inl e \<and>
        connect d (c, t) = (Inl e, c, t @ [DrvConnect (connection_params c)]))"
  by (cases "drv_connect d t (connection_params c)") (simp_all add: connect_def)

text \<open>
  C1, as the code has it. A failing connect leaves the client object as it was:
  the handle reference is not assigned on the failure path, so a client without
  a handle still has none, and a client that held a handle still holds that
  same handle. The attempt is the one driver call recorded.
\<close>

theorem connect_failure_leaves_handle_unchanged:
  assumes "connect d (c, t) = (Inl e, c', t')"
  shows "c' = c \<and> connection c' = connection c \<and>
         (connection c = None \<longrightarrow> connection c' = None) \<and>
         t' = t @ [DrvConnect (connection_params c)]"
  using assms connect_cases [of d t c] by auto

theorem connect_failure_leaves_handle_unchanged_witness:
  "connect flaky_driver (acme\<lparr>connection := Some 1\<rparr>, [DrvConnect (connection_params acme)]) =
     (Inl (DriverException ''connection refused''), acme\<lparr>connection := Some 1\<rparr>,
      [DrvConnect (connection_params acme), DrvConnect (connection_params acme)]) \<and>
   connection (acme\<lparr>connection := Some 1\<rparr>) = Some 1"
proof -
  have run: "connect flaky_driver (acme\<lparr>connection := Some 1\<rparr>, [DrvConnect (connection_params acme)]) =
     (Inl (DriverException ''connection refused''), acme\<lparr>connection := Some 1\<rparr>,
      [DrvConnect (connection_params acme), DrvConnect (connection_params acme)])"
    by (simp add: connect_def flaky_driver_def ok_driver_def)
  from connect_failure_leaves_handle_unchanged [OF run] run show ?thesis
    by simp
qed

text \<open>
  C1, as the claim states it, fails: a client connects, and a second connect on
  the same client is refused by the driver; the client then still holds the
  handle of the first connection.
\<close>

theorem connect_failure_unconnected_counterexample:
  "connect flaky_driver (acme, []) =
     (Inr (), acme\<lparr>connection := Some 1\<rparr>, [DrvConnect (connection_params acme)]) \<and>
   fst (connect flaky_driver (acme\<lparr>connection := Some 1\<rparr>, [DrvConnect (connection_params acme)])) =
     Inl (DriverException ''connection refused'') \<and>
   connection (fst (snd (connect flaky_driver
     (acme\<lparr>connection := Some 1\<rparr>, [DrvConnect (connection_params acme)])))) \<noteq> None"
  by (simp add: connect_def flaky_driver_def ok_driver_def)

lemma disconnect_cases:
  "(connection c = None \<and> disconnect d (c, t) = (Inr (), c, t)) \<or>
   (\<exists>h. connection c = Some h \<and> drv_close d t h = None \<and>
        disconnect d (c, t) = (Inr (), c\<lparr>connection := None\<rparr>, t @ [DrvClose h])) \<or>
   (\<exists>h e. connection c = Some h \<and> drv_close d t h = Some e \<and>
        disconnect d (c, t) = (Inl e, c, t @ [DrvClose h]))"
proof (cases "connection c")
  case None
  then show ?thesis by (simp add: disconnect_def)
next
  case (Some h)
  then show ?thesis by (cases "drv_close d t h") (simp_all add: disconnect_def)
qed

text \<open>
  C7. disconnect is idempotent. Without a handle it does nothing: no driver
  call, no error, the client unchanged. With a handle whose close returns, it
  closes that handle once and clears the reference. Whenever a disconnect has
  returned, the client holds no handle and a second disconnect right after it
  returns too and changes nothing.
\<close>

theorem disconnect_idempotent:
  "(connection c = None \<longrightarrow> disconnect d (c, t) = (Inr (), c, t)) \<and>
   (\<forall>h. connection c = Some h \<and> drv_close d t h = None \<longrightarrow>
        disconnect d (c, t) = (Inr (), c\<lparr>connection := None\<rparr>, t @ [DrvClose h])) \<and>
   (\<forall>c' t'. disconnect d (c, t) = (Inr (), c', t') \<longrightarrow>
        connection c' = None \<and> disconnect d (c', t') = (Inr (), c', t'))"
proof -
  have noop: "connection c = None \<longrightarrow> disconnect d (c, t) = (Inr (), c, t)"
    by (simp add: disconnect_def)
  have closes: "\<forall>h. connection c = Some h \<and> drv_close d t h = None \<longrightarrow>
        disconnect d (c, t) = (Inr (), c\<lparr>connection := None\<rparr>, t @ [DrvClose h])"
    by (simp add: disconnect_def)
  have twice: "connection c' = None \<and> disconnect d (c', t') = (Inr (), c', t')"
    if ret: "disconnect d (c, t) = (Inr (), c', t')" for c' t'
  proof -
    from disconnect_cases [of c d t] ret have "connection c' = None"
      by auto
    then show ?thesis
      by (simp add: disconnect_def)
  qed
  from noop closes twice show ?thesis
    by blast
qed

theorem disconnect_idempotent_witness:
  "disconnect ok_driver (acme\<lparr>connection := Some 1\<rparr>, []) = (Inr (), acme, [DrvClose 1]) \<and>
   connection acme = None \<and>
   disconnect ok_driver (acme, [DrvClose 1]) = (Inr (), acme, [DrvClose 1])"
proof -
  have run: "disconnect ok_driver (acme\<lparr>connection := Some 1\<rparr>, []) = (Inr (), acme, [DrvClose 1])"
    by (simp add: disconnect_def ok_driver_def acme_def SnowflakeClient_init_def)
  from disconnect_idempotent [of "acme\<lparr>connection := Some 1\<rparr>" ok_driver "[]"]
  have "\<forall>c' t'. disconnect ok_driver (acme\<lparr>connection := Some 1\<rparr>, []) = (Inr (), c', t') \<longrightarrow>
        connection c' = None \<and> disconnect ok_driver (c', t') = (Inr (), c', t')"
    by blast
  with run show ?thesis
    by blast
qed

text \<open>
  C10. When a handle exists and its close raises, disconnect raises that
  exception and leaves the client as it was, still holding the same handle; a
  following disconnect calls close on that handle again.
\<close>

theorem disconnect_close_failure_keeps_handle:
  assumes "connection c = Some h" and "drv_close d t h = Some e"
  shows "disconnect d (c, t) = (Inl e, c, t @ [DrvClose h]) \<and>
         snd (snd (disconnect d (c, t @ [DrvClose h]))) = t @ [DrvClose h, DrvClose h]"
  using assms by (simp add: disconnect_def split: option.splits)

theorem disconnect_close_failure_keeps_handle_witness:
  "disconnect stuck_driver (acme\<lparr>connection := Some 1\<rparr>, []) =
     (Inl (DriverException ''close failed''), acme\<lparr>connection := Some 1\<rparr>, [DrvClose 1]) \<and>
   disconnect stuck_driver (acme\<lparr>connection := Some 1\<rparr>, [DrvClose 1]) =
     (Inl (DriverException ''close failed''), acme\<lparr>connection := Some 1\<rparr>, [DrvClose 1, DrvClose 1])"
proof -
  have h1: "connection (acme\<lparr>connection := Some 1\<rparr>) = Some 1"
    by simp
  have h2: "drv_close stuck_driver [] 1 = Some (DriverException ''close failed'')"
    and h3: "drv_close stuck_driver [DrvClose 1] 1 = Some (DriverException ''close failed'')"
    by (simp_all add: stuck_driver_def)
  from disconnect_close_failure_keeps_handle [OF h1 h2]
    disconnect_close_failure_keeps_handle [OF h1 h3]
  show ?thesis
    by simp
qed

subsection \<open>Scoped use\<close>

text \<open>
  C6. In \<^verbatim>\<open>with client: body\<close>, entering is connect. Once connect has
  returned, disconnect runs exactly once, on the state the body left behind,
  whether the body returned or raised: the final state is that of this one
  disconnect, and when the body left a handle in place the driver sees exactly
  one close of it after the body. The exception handed to the exit is ignored,
  and the outcome is the body's unless the disconnect itself raises.
\<close>

theorem scoped_use_disconnects_once:
  "client_enter d s = connect d s \<and>
   client_exit d exc s = disconnect d s \<and>
   (\<forall>s1 rb s2. connect d s = (Inr (), s1) \<and> body s1 = (rb, s2) \<longrightarrow>
      snd (with_client d body s) = snd (disconnect d s2) \<and>
      (\<forall>h. connection (fst s2) = Some h \<longrightarrow>
           snd (snd (with_client d body s)) = snd s2 @ [DrvClose h]) \<and>
      (fst (disconnect d s2) = Inr () \<longrightarrow> fst (with_client d body s) = rb))"
proof -
  have scope: "snd (with_client d body s) = snd (disconnect d s2) \<and>
      (fst (disconnect d s2) = Inr () \<longrightarrow> fst (with_client d body s) = rb)"
    if "connect d s = (Inr (), s1)" and "body s1 = (rb, s2)" for s1 rb s2
  proof (cases "disconnect d s2")
    case (fields r s3)
    with that show ?thesis
      by (cases rb; cases r) (simp_all add: with_client_def client_enter_def client_exit_def)
  qed
  have close: "snd (snd (disconnect d s2)) = snd s2 @ [DrvClose h]"
    if "connection (fst s2) = Some h" for s2 h
  proof (cases s2)
    case (Pair c t)
    with that disconnect_cases [of c d t] show ?thesis
      by auto
  qed
  have enter: "client_enter d s = connect d s" and leave: "client_exit d exc s = disconnect d s"
    by (simp_all add: client_enter_def client_exit_def)
  from scope close have "\<forall>s1 rb s2. connect d s = (Inr (), s1) \<and> body s1 = (rb, s2) \<longrightarrow>
      snd (with_client d body s) = snd (disconnect d s2) \<and>
      (\<forall>h. connection (fst s2) = Some h \<longrightarrow>
           snd (snd (with_client d body s)) = snd s2 @ [DrvClose h]) \<and>
      (fst (disconnect d s2) = Inr () \<longrightarrow> fst (with_client d body s) = rb)"
    by metis
  with enter leave show ?thesis
    by blast
qed

theorem scoped_use_disconnects_once_witness:
  "with_client ok_driver failing_body (acme, []) =
     (Inl (PyException ''boom''), acme, [DrvConnect (connection_params acme), DrvClose 1])"
proof -
  have c: "connect ok_driver (acme, []) =
      (Inr (), acme\<lparr>connection := Some 1\<rparr>, [DrvConnect (connection_params acme)])"
    by (simp add: connect_def ok_driver_def)
  have b: "failing_body (acme\<lparr>connection := Some 1\<rparr>, [DrvConnect (connection_params acme)]) =
      (Inl (PyException ''boom''), acme\<lparr>connection := Some 1\<rparr>, [DrvConnect (connection_params acme)])"
    by (simp add: failing_body_def)
  have dis: "disconnect ok_driver (acme\<lparr>connection := Some 1\<rparr>, [DrvConnect (connection_params acme)]) =
      (Inr (), acme, [DrvConnect (connection_params acme), DrvClose 1])"
    by (simp add: disconnect_def ok_driver_def acme_def SnowflakeClient_init_def)
  from scoped_use_disconnects_once [of ok_driver "(acme, [])" None failing_body] c b
  have "snd (with_client ok_driver failing_body (acme, [])) =
          snd (disconnect ok_driver (acme\<lparr>connection := Some 1\<rparr>, [DrvConnect (connection_params acme)])) \<and>
        (fst (disconnect ok_driver (acme\<lparr>connection := Some 1\<rparr>, [DrvConnect (connection_params acme)])) = Inr () \<longrightarrow>
         fst (with_client ok_driver failing_body (acme, [])) = Inl (PyException ''boom''))"
    by blast
  then show ?thesis
    unfolding dis by (simp add: prod_eq_iff)
qed

subsection \<open>Building a client from the environment\<close>

text \<open>
  C3. create_snowflake_client_from_env depends on the environment only through
  SNOWFLAKE_ACCOUNT, SNOWFLAKE_USER, SNOWFLAKE_PASSWORD, SNOWFLAKE_WAREHOUSE and
  SNOWFLAKE_ROLE: two environments that agree on these five give the same
  outcome. The parameters of a client it returns have no database key and no
  schema key, whatever SNOWFLAKE_DATABASE and SNOWFLAKE_SCHEMA are.
\<close>

theorem from_env_never_sets_database_or_schema:
  "(env ''SNOWFLAKE_ACCOUNT'' = env' ''SNOWFLAKE_ACCOUNT'' \<and>
    env ''SNOWFLAKE_USER'' = env' ''SNOWFLAKE_USER'' \<and>
    env ''SNOWFLAKE_PASSWORD'' = env' ''SNOWFLAKE_PASSWORD'' \<and>
    env ''SNOWFLAKE_WAREHOUSE'' = env' ''SNOWFLAKE_WAREHOUSE'' \<and>
    env ''SNOWFLAKE_ROLE'' = env' ''SNOWFLAKE_ROLE'' \<longrightarrow>
    create_snowflake_client_from_env env = create_snowflake_client_from_env env') \<and>
   (\<forall>c. create_snowflake_client_from_env env = Inr c \<longrightarrow>
        ''database'' \<notin> fst ` set (connection_params c) \<and>
        ''schema'' \<notin> fst ` set (connection_params c))"
proof -
  have only: "create_snowflake_client_from_env env = create_snowflake_client_from_env env'"
    if "env ''SNOWFLAKE_ACCOUNT'' = env' ''SNOWFLAKE_ACCOUNT''"
      "env ''SNOWFLAKE_USER'' = env' ''SNOWFLAKE_USER''"
      "env ''SNOWFLAKE_PASSWORD'' = env' ''SNOWFLAKE_PASSWORD''"
      "env ''SNOWFLAKE_WAREHOUSE'' = env' ''SNOWFLAKE_WAREHOUSE''"
      "env ''SNOWFLAKE_ROLE'' = env' ''SNOWFLAKE_ROLE''"
    unfolding create_snowflake_client_from_env_def using that by simp
  have keys: "''database'' \<notin> fst ` set (connection_params c) \<and>
        ''schema'' \<notin> fst ` set (connection_params c)"
    if "create_snowflake_client_from_env env = Inr c" for c
  proof -
    from that obtain a u p where
      "c = SnowflakeClient_init a u p (env ''SNOWFLAKE_WAREHOUSE'') None None (env ''SNOWFLAKE_ROLE'')"
      by (auto simp: create_snowflake_client_from_env_def Let_def split: if_splits)
    then show ?thesis
      by (simp add: SnowflakeClient_init_def keys_put_if_truthy)
  qed
  from only keys show ?thesis
    by blast
qed

theorem from_env_never_sets_database_or_schema_witness:
  "sample_env ''SNOWFLAKE_DATABASE'' = Some ''SALES'' \<and>
   sample_env ''SNOWFLAKE_SCHEMA'' = Some ''PUBLIC'' \<and>
   create_snowflake_client_from_env sample_env = Inr acme \<and>
   ''database'' \<notin> fst ` set (connection_params acme) \<and>
   ''schema'' \<notin> fst ` set (connection_params acme) \<and>
   create_snowflake_client_from_env
     (sample_env(''SNOWFLAKE_DATABASE'' := None, ''SNOWFLAKE_SCHEMA'' := None)) = Inr acme"
proof -
  have run: "create_snowflake_client_from_env sample_env = Inr acme"
    by (simp add: create_snowflake_client_from_env_def sample_env_def truthy_str_def acme_def)
  have env: "sample_env ''SNOWFLAKE_DATABASE'' = Some ''SALES''"
    "sample_env ''SNOWFLAKE_SCHEMA'' = Some ''PUBLIC''"
    by (simp_all add: sample_env_def)
  from from_env_never_sets_database_or_schema
    [of sample_env "sample_env(''SNOWFLAKE_DATABASE'' := None, ''SNOWFLAKE_SCHEMA'' := None)"]
  have "create_snowflake_client_from_env sample_env =
          create_snowflake_client_from_env
            (sample_env(''SNOWFLAKE_DATABASE'' := None, ''SNOWFLAKE_SCHEMA'' := None)) \<and>
        (\<forall>c. create_snowflake_client_from_env sample_env = Inr c \<longrightarrow>
          ''database'' \<notin> fst ` set (connection_params c) \<and>
          ''schema'' \<notin> fst ` set (connection_params c))"
    by simp
  with run env show ?thesis
    by metis
qed

subsection \<open>Running one statement\<close>

lemma execute_query_try_unconnected:
  "connection c = None \<Longrightarrow>
   execute_query_try d q ps (c, t) = (Inl (PyException ''No connection to Snowflake''), c, t)"
  by (simp add: execute_query_try_def)

lemma execute_query_try_shape:
  assumes "execute_query_try d q ps (c, t) = (r, c', t')"
  shows "c' = c \<and> (\<exists>evs. t' = t @ evs \<and> connects evs = 0 \<and> prefix (statements evs) [q] \<and>
           (\<forall>rows. r = Inr rows \<longrightarrow> statements evs = [q]))"
proof (cases "connection c")
  case None
  with assms show ?thesis
    by (auto simp: execute_query_try_unconnected)
next
  case (Some h)
  with assms show ?thesis
    by (cases "drv_cursor d t h")
       (auto simp: execute_query_try_def Let_def split: option.splits sum.splits)
qed

text \<open>
  C2. In the try block of execute_query, with a cursor \<open>cur\<close> opened on the
  handle: the cursor is closed exactly when both execute and fetchall return.
  When the block returns rows, the close is the last driver call before the
  return; when execute raises, or fetchall raises, that exception leaves the
  block and no close has been called.
\<close>

theorem cursor_closed_iff_execute_and_fetch_succeed:
  assumes "connection c = Some h" and "drv_cursor d t h = Inr cur"
    and "execute_query_try d query ps (c, t) = (r, c', t')"
  shows "let arg = (if truthy_dict ps then ps else None);
             t1 = t @ [DrvCursor h];
             t2 = t1 @ [DrvExecute cur query arg]
         in (DrvCursorClose cur \<in> set (drop (length t) t') \<longleftrightarrow>
               drv_execute d t1 cur query arg = None \<and> (\<exists>rows. drv_fetchall d t2 cur = Inr rows)) \<and>
            (\<forall>rows. r = Inr rows \<longrightarrow>
               t' = t2 @ [DrvFetchall cur, DrvCursorClose cur] \<and> drv_fetchall d t2 cur = Inr rows) \<and>
            (\<forall>e. drv_execute d t1 cur query arg = Some e \<longrightarrow> r = Inl e \<and> t' = t2) \<and>
            (\<forall>e. drv_execute d t1 cur query arg = None \<and> drv_fetchall d t2 cur = Inl e \<longrightarrow>
               r = Inl e \<and> t' = t2 @ [DrvFetchall cur])"
proof -
  define arg where "arg = (if truthy_dict ps then ps else None)"
  define t1 where "t1 = t @ [DrvCursor h]"
  define t2 where "t2 = t1 @ [DrvExecute cur query arg]"
  define t3 where "t3 = t2 @ [DrvFetchall cur]"
  have run: "execute_query_try d query ps (c, t) =
     (case drv_execute d t1 cur query arg of
        Some e \<Rightarrow> (Inl e, c, t2)
      | None \<Rightarrow>
          (case drv_fetchall d t2 cur of
             Inl e \<Rightarrow> (Inl e, c, t3)
           | Inr results \<Rightarrow>
               (case drv_cursor_close d t3 cur of
                  Some e \<Rightarrow> (Inl e, c, t3 @ [DrvCursorClose cur])
                | None \<Rightarrow> (Inr results, c, t3 @ [DrvCursorClose cur]))))"
    unfolding execute_query_try_def Let_def arg_def t1_def t2_def t3_def
    using assms(1,2) by simp
  have "(DrvCursorClose cur \<in> set (drop (length t) t') \<longleftrightarrow>
               drv_execute d t1 cur query arg = None \<and> (\<exists>rows. drv_fetchall d t2 cur = Inr rows)) \<and>
            (\<forall>rows. r = Inr rows \<longrightarrow>
               t' = t2 @ [DrvFetchall cur, DrvCursorClose cur] \<and> drv_fetchall d t2 cur = Inr rows) \<and>
            (\<forall>e. drv_execute d t1 cur query arg = Some e \<longrightarrow> r = Inl e \<and> t' = t2) \<and>
            (\<forall>e. drv_execute d t1 cur query arg = None \<and> drv_fetchall d t2 cur = Inl e \<longrightarrow>
               r = Inl e \<and> t' = t2 @ [DrvFetchall cur])"
  proof (cases "drv_execute d t1 cur query arg")
    case (Some e)
    with run assms(3) show ?thesis
      by (auto simp: t1_def t2_def)
  next
    case None
    note ex = this
    show ?thesis
    proof (cases "drv_fetchall d t2 cur")
      case (Inl e)
      with run ex assms(3) show ?thesis
        by (auto simp: t1_def t2_def t3_def)
    next
      case (Inr rows)
      with run ex assms(3) show ?thesis
        by (cases "drv_cursor_close d t3 cur") (auto simp: t1_def t2_def t3_def)
    qed
  qed
  then show ?thesis
    by (simp add: Let_def arg_def t1_def t2_def)
qed

theorem cursor_closed_iff_execute_and_fetch_succeed_witness:
  "execute_query_try ok_driver ''SELECT A'' None (acme\<lparr>connection := Some 1\<rparr>, []) =
     (Inr [[(''A'', PInt 1)], [(''A'', PInt 2)]], acme\<lparr>connection := Some 1\<rparr>,
      [DrvCursor 1, DrvExecute 0 ''SELECT A'' None, DrvFetchall 0, DrvCursorClose 0]) \<and>
   execute_query_try bad_sql_driver ''SELECT A'' None (acme\<lparr>connection := Some 1\<rparr>, []) =
     (Inl (DriverException ''SQL compilation error''), acme\<lparr>connection := Some 1\<rparr>,
      [DrvCursor 1, DrvExecute 0 ''SELECT A'' None]) \<and>
   DrvCursorClose 0 \<notin> set [DrvCursor 1, DrvExecute 0 ''SELECT A'' None]"
proof -
  have h: "connection (acme\<lparr>connection := Some 1\<rparr>) = Some 1"
    by simp
  have cur: "drv_cursor ok_driver [] 1 = Inr 0" "drv_cursor bad_sql_driver [] 1 = Inr 0"
    by (simp_all add: ok_driver_def bad_sql_driver_def)
  have good: "execute_query_try ok_driver ''SELECT A'' None (acme\<lparr>connection := Some 1\<rparr>, []) =
     (Inr [[(''A'', PInt 1)], [(''A'', PInt 2)]], acme\<lparr>connection := Some 1\<rparr>,
      [DrvCursor 1, DrvExecute 0 ''SELECT A'' None, DrvFetchall 0, DrvCursorClose 0])"
    by (simp add: execute_query_try_def ok_driver_def truthy_dict_def)
  have bad: "execute_query_try bad_sql_driver ''SELECT A'' None (acme\<lparr>connection := Some 1\<rparr>, []) =
     (Inl (DriverException ''SQL compilation error''), acme\<lparr>connection := Some 1\<rparr>,
      [DrvCursor 1, DrvExecute 0 ''SELECT A'' None])"
    by (simp add: execute_query_try_def ok_driver_def bad_sql_driver_def truthy_dict_def)
  from cursor_closed_iff_execute_and_fetch_succeed [OF h cur(1) good]
    cursor_closed_iff_execute_and_fetch_succeed [OF h cur(2) bad] good bad
  show ?thesis
    by simp
qed

subsection \<open>Running a query with its context\<close>

lemma statements_append: "statements (xs @ ys) = statements xs @ statements ys"
  by (induction xs rule: statements.induct) simp_all

lemma connects_append: "connects (xs @ ys) = connects xs + connects ys"
  by (induction xs rule: connects.induct) simp_all

lemma execute_query_connected_plain:
  assumes "connection c \<noteq> None" and "\<not> truthy_dict init"
  shows "execute_query d q ps init (c, t) = execute_query_try d q ps (c, t)"
  using assms by (auto simp: execute_query.simps)

lemma use_statement_shape:
  assumes "connection c \<noteq> None" and "execute_query d q None None (c, t) = (r, c', t')"
  shows "c' = c \<and> (\<exists>evs. t' = t @ evs \<and> connects evs = 0 \<and> prefix (statements evs) [q] \<and>
           (\<forall>rows. r = Inr rows \<longrightarrow> statements evs = [q]))"
proof -
  have "execute_query d q None None (c, t) = execute_query_try d q None (c, t)"
    using assms(1) by (intro execute_query_connected_plain) (simp_all add: truthy_dict_def)
  with assms(2) show ?thesis
    using execute_query_try_shape [of d q None c t r c' t'] by simp
qed

text \<open>One optional USE statement: run when the identifier is truthy, skipped otherwise.\<close>

lemma optional_use_shape:
  assumes conn: "connection c \<noteq> None"
    and run: "(if truthy_str x then execute_query d q None None (c, t) else (Inr [], c, t)) = (r, c', t')"
  shows "c' = c \<and> (\<exists>evs. t' = t @ evs \<and> connects evs = 0 \<and>
           prefix (statements evs) (if truthy_str x then [q] else []) \<and>
           (\<forall>rows. r = Inr rows \<longrightarrow> statements evs = (if truthy_str x then [q] else [])))"
proof (cases "truthy_str x")
  case True
  with run use_statement_shape [OF conn, of d q t r c' t'] show ?thesis
    by simp
next
  case False
  with run show ?thesis
    by auto
qed

lemma initialize_context_shape:
  assumes conn: "connection c \<noteq> None"
    and run: "initialize_context d database schema (c, t) = (r, c', t')"
  shows "c' = c \<and> (\<exists>evs. t' = t @ evs \<and> connects evs = 0 \<and>
           prefix (statements evs) (use_statements database schema) \<and>
           (r = Inr () \<longrightarrow> statements evs = use_statements database schema))"
proof -
  let ?q1 = "''USE DATABASE '' @ the database"
  let ?q2 = "''USE SCHEMA '' @ the schema"
  let ?u1 = "if truthy_str database then [?q1] else []"
  let ?u2 = "if truthy_str schema then [?q2] else []"
  obtain r1 c1 t1 where first:
    "(if truthy_str database then execute_query d ?q1 None None (c, t) else (Inr [], c, t)) = (r1, c1, t1)"
    using prod_cases3 by blast
  from optional_use_shape [OF conn first]
  obtain evs1 where e1: "c1 = c" "t1 = t @ evs1" "connects evs1 = 0"
    "prefix (statements evs1) ?u1" "\<forall>rows. r1 = Inr rows \<longrightarrow> statements evs1 = ?u1"
    by blast
  obtain r2 c2 t2 where second:
    "(if truthy_str schema then execute_query d ?q2 None None (c, t1) else (Inr [], c, t1)) = (r2, c2, t2)"
    using prod_cases3 by blast
  from optional_use_shape [OF conn second]
  obtain evs2 where e2: "c2 = c" "t2 = t1 @ evs2" "connects evs2 = 0"
    "prefix (statements evs2) ?u2" "\<forall>rows. r2 = Inr rows \<longrightarrow> statements evs2 = ?u2"
    by blast
  from run have run': "(case (r1, c1, t1) of
        (Inl e, s1) \<Rightarrow> (Inl e, s1)
      | (Inr _, s1) \<Rightarrow>
          (case (if truthy_str schema then execute_query d ?q2 None None s1 else (Inr [], s1)) of
             (Inl e, s2) \<Rightarrow> (Inl e, s2)
           | (Inr _, s2) \<Rightarrow> (Inr (), s2))) = (r, c', t')"
    by (simp only: initialize_context.simps first)
  show ?thesis
  proof (cases r1)
    case (Inl e)
    with run' have "r = Inl e" "c' = c1" "t' = t1"
      by simp_all
    with e1 show ?thesis
      by (auto simp: use_statements_def)
  next
    case (Inr rows1)
    with run' e1(1) have "(case (r2, c2, t2) of
             (Inl e, s2) \<Rightarrow> (Inl e, s2)
           | (Inr _, s2) \<Rightarrow> (Inr (), s2)) = (r, c', t')"
      by (simp add: second)
    then have out: "c' = c2 \<and> t' = t2 \<and> (r = Inr () \<longrightarrow> (\<exists>rows. r2 = Inr rows))"
      by (cases r2) auto
    from Inr e1(5) have st1: "statements evs1 = ?u1"
      by simp
    have "t' = t @ (evs1 @ evs2)"
      using out e1(2) e2(2) by simp
    moreover have "connects (evs1 @ evs2) = 0"
      using e1(3) e2(3) by (simp add: connects_append)
    moreover have "prefix (statements (evs1 @ evs2)) (use_statements database schema)"
      using e2(4) unfolding statements_append st1 use_statements_def by simp
    moreover have "r = Inr () \<longrightarrow> statements (evs1 @ evs2) = use_statements database schema"
      using e2(5) out unfolding statements_append st1 use_statements_def by auto
    ultimately show ?thesis
      using out e2(1) by blast
  qed
qed

lemma lazy_connect_shape:
  assumes "(if connection c = None then connect d (c, t) else (Inr (), c, t)) = (r0, c0, t0)"
  shows "t0 = t @ (if connection c = None then [DrvConnect (connection_params c)] else []) \<and>
         (r0 = Inr () \<longrightarrow> connection c0 \<noteq> None) \<and> (r0 \<noteq> Inr () \<longrightarrow> (\<exists>e. r0 = Inl e))"
proof (cases "connection c = None")
  case True
  with assms connect_cases [of d t c] show ?thesis
    by auto
next
  case False
  with assms show ?thesis
    by auto
qed

lemma execute_query_shape:
  assumes run: "execute_query d q ps init (c, t) = (r, c', t')"
  shows "\<exists>evs. t' = t @ (if connection c = None then [DrvConnect (connection_params c)] else []) @ evs \<and>
           connects evs = 0 \<and> prefix (statements evs) (planned_statements q init) \<and>
           (\<forall>rows. r = Inr rows \<longrightarrow> statements evs = planned_statements q init)"
proof -
  let ?pre = "if connection c = None then [DrvConnect (connection_params c)] else []"
  let ?ctx = "if truthy_dict init
      then use_statements (dict_get init ''database'') (dict_get init ''schema'') else []"
  obtain r0 c0 t0 where first:
    "(if connection c = None then connect d (c, t) else (Inr (), c, t)) = (r0, c0, t0)"
    using prod_cases3 by blast
  from lazy_connect_shape [OF first]
  have l: "t0 = t @ ?pre" "r0 = Inr () \<longrightarrow> connection c0 \<noteq> None" "r0 \<noteq> Inr () \<longrightarrow> (\<exists>e. r0 = Inl e)"
    by blast+
  obtain r1 c1 t1 where second:
    "(if truthy_dict init
      then initialize_context d (dict_get init ''database'') (dict_get init ''schema'') (c0, t0)
      else (Inr (), c0, t0)) = (r1, c1, t1)"
    using prod_cases3 by blast
  from run have run': "(case (r0, c0, t0) of
        (Inl e, s1) \<Rightarrow> (Inl e, s1)
      | (Inr _, s1) \<Rightarrow>
          (case (if truthy_dict init
                 then initialize_context d (dict_get init ''database'') (dict_get init ''schema'') s1
                 else (Inr (), s1)) of
             (Inl e, s2) \<Rightarrow> (Inl e, s2)
           | (Inr _, s2) \<Rightarrow> execute_query_try d q ps s2)) = (r, c', t')"
    by (simp only: execute_query.simps fst_conv first)
  show ?thesis
  proof (cases "r0 = Inr ()")
    case False
    with l(3) obtain e where "r0 = Inl e"
      by blast
    with run' have "r = Inl e" "t' = t0"
      by simp_all
    with l(1) have "t' = t @ ?pre @ []" "connects [] = 0"
      "prefix (statements []) (planned_statements q init)"
      "\<forall>rows. r = Inr rows \<longrightarrow> statements [] = planned_statements q init"
      by simp_all
    then show ?thesis
      by blast
  next
    case True
    with l(2) have conn: "connection c0 \<noteq> None"
      by simp
    from True run' have run2: "(case (r1, c1, t1) of
             (Inl e, s2) \<Rightarrow> (Inl e, s2)
           | (Inr _, s2) \<Rightarrow> execute_query_try d q ps s2) = (r, c', t')"
      by (simp add: second)
    have "c1 = c0 \<and> (\<exists>evs. t1 = t0 @ evs \<and> connects evs = 0 \<and> prefix (statements evs) ?ctx \<and>
           (r1 = Inr () \<longrightarrow> statements evs = ?ctx))"
    proof (cases "truthy_dict init")
      case True
      with second initialize_context_shape [OF conn, of d "dict_get init ''database''"
          "dict_get init ''schema''" t0 r1 c1 t1]
      show ?thesis
        by simp
    next
      case False
      with second show ?thesis
        by auto
    qed
    then obtain evs1 where e1: "c1 = c0" "t1 = t0 @ evs1" "connects evs1 = 0"
      "prefix (statements evs1) ?ctx" "r1 = Inr () \<longrightarrow> statements evs1 = ?ctx"
      by blast
    show ?thesis
    proof (cases r1)
      case (Inl e)
      with run2 have "r = Inl e" "t' = t1"
        by simp_all
      moreover from e1(4) have "prefix (statements evs1) (planned_statements q init)"
        unfolding planned_statements_def by (rule prefix_prefix)
      ultimately have "t' = t @ ?pre @ evs1" "connects evs1 = 0"
        "prefix (statements evs1) (planned_statements q init)"
        "\<forall>rows. r = Inr rows \<longrightarrow> statements evs1 = planned_statements q init"
        using l(1) e1(2,3) by simp_all
      then show ?thesis
        by blast
    next
      case (Inr u)
      with run2 have run3: "execute_query_try d q ps (c1, t1) = (r, c', t')"
        by simp
      from Inr e1(5) have st1: "statements evs1 = ?ctx"
        by simp
      from execute_query_try_shape [OF run3]
      obtain evs2 where e2: "t' = t1 @ evs2" "connects evs2 = 0" "prefix (statements evs2) [q]"
        "\<forall>rows. r = Inr rows \<longrightarrow> statements evs2 = [q]"
        by blast
      have "t' = t @ ?pre @ (evs1 @ evs2)"
        using l(1) e1(2) e2(1) by simp
      moreover have "connects (evs1 @ evs2) = 0"
        using e1(3) e2(2) by (simp add: connects_append)
      moreover have "prefix (statements (evs1 @ evs2)) (planned_statements q init)"
        unfolding statements_append st1 planned_statements_def same_prefix_prefix by (rule e2(3))
      moreover have "\<forall>rows. r = Inr rows \<longrightarrow> statements (evs1 @ evs2) = planned_statements q init"
        using e2(4) unfolding statements_append st1 planned_statements_def by simp
      ultimately show ?thesis
        by blast
    qed
  qed
qed

text \<open>
  C4. With an init mapping that supplies a database D and a schema S (two
  non-empty identifiers), the statements execute_query hands to the driver are,
  in this order, \<open>USE DATABASE D\<close>, \<open>USE SCHEMA S\<close> and the query text, each
  USE text being the keyword followed by the identifier as it is: a call that
  returns has issued exactly these three, and a call that raises has issued an
  initial part of them.
\<close>

theorem init_issues_use_database_use_schema_query:
  assumes "dict_get init ''database'' = Some D" and "dict_get init ''schema'' = Some S"
    and "D \<noteq> []" and "S \<noteq> []"
    and "execute_query d query ps init (c, t) = (r, c', t')"
  shows "\<exists>evs. t' = t @ evs \<and>
           prefix (statements evs) [''USE DATABASE '' @ D, ''USE SCHEMA '' @ S, query] \<and>
           (\<forall>rows. r = Inr rows \<longrightarrow>
              statements evs = [''USE DATABASE '' @ D, ''USE SCHEMA '' @ S, query])"
proof -
  let ?pre = "if connection c = None then [DrvConnect (connection_params c)] else []"
  from assms(1) have "truthy_dict init"
    by (cases init) (auto simp: dict_get_def truthy_dict_def)
  with assms(1-4) have plan:
    "planned_statements query init = [''USE DATABASE '' @ D, ''USE SCHEMA '' @ S, query]"
    by (simp add: planned_statements_def use_statements_def truthy_str_def)
  from execute_query_shape [OF assms(5)] obtain evs where
    e: "t' = t @ ?pre @ evs" "prefix (statements evs) (planned_statements query init)"
    "\<forall>rows. r = Inr rows \<longrightarrow> statements evs = planned_statements query init"
    by blast
  have "statements (?pre @ evs) = statements evs"
    by (simp add: statements_append)
  with e plan have "t' = t @ (?pre @ evs)"
    "prefix (statements (?pre @ evs)) [''USE DATABASE '' @ D, ''USE SCHEMA '' @ S, query]"
    "\<forall>rows. r = Inr rows \<longrightarrow>
       statements (?pre @ evs) = [''USE DATABASE '' @ D, ''USE SCHEMA '' @ S, query]"
    by simp_all
  then show ?thesis
    by blast
qed

theorem init_issues_use_database_use_schema_query_witness:
  "statements (snd (snd (execute_query ok_driver ''SELECT 1'' None
      (Some [(''database'', ''D''), (''schema'', ''S'')]) (acme, [])))) =
     [''USE DATABASE D'', ''USE SCHEMA S'', ''SELECT 1'']"
proof -
  have run: "execute_query ok_driver ''SELECT 1'' None (Some [(''database'', ''D''), (''schema'', ''S'')]) (acme, []) =
     (Inr [[(''A'', PInt 1)], [(''A'', PInt 2)]], acme\<lparr>connection := Some 1\<rparr>,
      [DrvConnect (connection_params acme),
       DrvCursor 1, DrvExecute 1 ''USE DATABASE D'' None, DrvFetchall 1, DrvCursorClose 1,
       DrvCursor 1, DrvExecute 5 ''USE SCHEMA S'' None, DrvFetchall 5, DrvCursorClose 5,
       DrvCursor 1, DrvExecute 9 ''SELECT 1'' None, DrvFetchall 9, DrvCursorClose 9])"
    by (simp add: execute_query.simps initialize_context.simps execute_query_try_def connect_def
        ok_driver_def truthy_dict_def truthy_str_def dict_get_def acme_connection)
  have h: "dict_get (Some [(''database'', ''D''), (''schema'', ''S'')]) ''database'' = Some ''D''"
    "dict_get (Some [(''database'', ''D''), (''schema'', ''S'')]) ''schema'' = Some ''S''"
    "''D'' \<noteq> []" "''S'' \<noteq> []"
    by (simp_all add: dict_get_def)
  from init_issues_use_database_use_schema_query [OF h run]
  obtain evs where "snd (snd (execute_query ok_driver ''SELECT 1'' None
      (Some [(''database'', ''D''), (''schema'', ''S'')]) (acme, []))) = [] @ evs"
    "statements evs = [''USE DATABASE '' @ ''D'', ''USE SCHEMA '' @ ''S'', ''SELECT 1'']"
    unfolding run by auto
  then show ?thesis
    by simp
qed

text \<open>
  C5. A call of execute_query on a client without a handle begins with one
  connect, before any other driver call, and makes no further connect in the
  rest of the call, whatever the driver answers; a call on a client that holds
  a handle makes no connect at all.
\<close>

theorem execute_query_connects_once_when_unconnected:
  assumes "execute_query d query ps init (c, t) = (r, c', t')"
  shows "(connection c = None \<longrightarrow>
            (\<exists>evs. t' = t @ DrvConnect (connection_params c) # evs \<and> connects evs = 0)) \<and>
         (connection c \<noteq> None \<longrightarrow> (\<exists>evs. t' = t @ evs \<and> connects evs = 0))"
proof -
  from execute_query_shape [OF assms] obtain evs where
    "t' = t @ (if connection c = None then [DrvConnect (connection_params c)] else []) @ evs"
    "connects evs = 0"
    by blast
  then show ?thesis
    by auto
qed

theorem execute_query_connects_once_when_unconnected_witness:
  "connection acme = None \<and>
   connects (snd (snd (execute_query ok_driver ''SELECT 1'' None
      (Some [(''database'', ''D''), (''schema'', ''S'')]) (acme, [])))) = 1 \<and>
   hd (snd (snd (execute_query ok_driver ''SELECT 1'' None
      (Some [(''database'', ''D''), (''schema'', ''S'')]) (acme, [])))) = DrvConnect (connection_params acme)"
proof -
  obtain r c' t' where run: "execute_query ok_driver ''SELECT 1'' None
      (Some [(''database'', ''D''), (''schema'', ''S'')]) (acme, []) = (r, c', t')"
    using prod_cases3 by blast
  from execute_query_connects_once_when_unconnected [OF run] acme_connection
  obtain evs where "t' = [] @ DrvConnect (connection_params acme) # evs" "connects evs = 0"
    by auto
  then have "connects t' = 1" "hd t' = DrvConnect (connection_params acme)"
    by simp_all
  with run acme_connection show ?thesis
    by simp
qed

end
